theory Spec2Isabelle
  imports Complex_Main
begin

section \<open>Python values used by the services\<close>

text \<open>
  The services compute with Python floats; here a float is an exact \<open>real\<close>, so rounding
  is not part of the model. A \<open>datetime\<close> is a count of microseconds.
\<close>

type_synonym datetime = int

text \<open>\<^verbatim>\<open>d.get(key, default)\<close> on a dict: the lookup never inserts the key.\<close>

definition dict_get :: "('k \<rightharpoonup> 'v) \<Rightarrow> 'k \<Rightarrow> 'v \<Rightarrow> 'v" where
  "dict_get d k dflt = (case d k of None \<Rightarrow> dflt | Some v \<Rightarrow> v)"

text \<open>
  \<^verbatim>\<open>deque(maxlen=n).append(x)\<close>: the element goes to the right end, and when the deque
  is then longer than \<open>maxlen\<close> the leftmost element is discarded. A deque of \<open>maxlen\<close> 0
  stays empty. The deque object keeps its \<open>maxlen\<close>; \<open>elems\<close> is its content, oldest first.
\<close>

record 'a deque =
  maxlen :: nat
  elems :: "'a list"

definition new_deque :: "nat \<Rightarrow> 'a deque" where
  "new_deque n = \<lparr>maxlen = n, elems = []\<rparr>"

definition deque_append :: "'a deque \<Rightarrow> 'a \<Rightarrow> 'a deque" where
  "deque_append d x =
     (if maxlen d = 0 then d
      else (let xs = elems d @ [x] in d\<lparr>elems := (if maxlen d < length xs then tl xs else xs)\<rparr>))"

text \<open>\<^verbatim>\<open>xs[-n:]\<close> for a positive \<open>n\<close>: the last \<open>n\<close> elements, or all of a shorter list.\<close>

definition last_n :: "nat \<Rightarrow> 'a list \<Rightarrow> 'a list" where
  "last_n n xs = drop (length xs - n) xs"

text \<open>
  \<^verbatim>\<open>np.mean\<close>, \<^verbatim>\<open>np.var\<close> (the population variance) and \<^verbatim>\<open>np.clip\<close>. The services call
  the first two on non-empty lists only: every call is behind a length check.
\<close>

definition np_mean :: "real list \<Rightarrow> real" where
  "np_mean xs = sum_list xs / real (length xs)"

definition np_var :: "real list \<Rightarrow> real" where
  "np_var xs = np_mean (map (\<lambda>x. (x - np_mean xs)\<^sup>2) xs)"

definition np_clip :: "real \<Rightarrow> real \<Rightarrow> real \<Rightarrow> real" where
  "np_clip x lo hi = min (max x lo) hi"

section \<open>The volatility predictor (services/volatility\_predictor.py)\<close>

text \<open>
  The schema classes of \<^verbatim>\<open>models.schemas\<close> are records of the fields the services read
  and write. Field names carry a prefix, since several classes share \<open>symbol\<close>,
  \<open>confidence\<close> and \<open>timestamp\<close>.
\<close>

record SentimentAnalysis =
  sa_text :: string
  sa_source :: string
  sa_sentiment :: string
  sa_confidence :: real
  sa_scores :: "string \<rightharpoonup> real"
  sa_entities :: "string list"
  sa_timestamp :: datetime
  sa_latency_ms :: real

text \<open>One entry of a symbol's history: the dict \<^verbatim>\<open>generate_signals\<close> appends.\<close>

record HistoryEntry =
  he_sentiment :: string
  he_confidence :: real
  he_scores :: "string \<rightharpoonup> real"
  he_timestamp :: datetime

record MarketSignal =
  ms_symbol :: string
  ms_signal :: string
  ms_strength :: real
  ms_sentiment_score :: real
  ms_volume :: nat
  ms_volatility_prediction :: real
  ms_confidence :: real
  ms_timestamp :: datetime
  ms_reasoning :: string

record VolatilityPrediction =
  vp_symbol :: string
  vp_predicted_volatility :: real
  vp_confidence :: real
  vp_time_horizon :: string
  vp_sentiment_variance :: real
  vp_volume :: nat
  vp_momentum :: real
  vp_timestamp :: datetime

text \<open>
  The object state: \<open>sentiment_history\<close> is a \<^verbatim>\<open>defaultdict\<close> of deques of \<open>maxlen\<close> 100,
  \<open>current_signals\<close> the cache of the last batch's signals.
\<close>

record VolatilityPredictor =
  sentiment_history :: "string \<rightharpoonup> HistoryEntry deque"
  current_signals :: "MarketSignal list"

definition init_VolatilityPredictor :: VolatilityPredictor where
  "init_VolatilityPredictor = \<lparr>sentiment_history = Map.empty, current_signals = []\<rparr>"

text \<open>
  \<^verbatim>\<open>self.sentiment_history.get(symbol, [])\<close> read as a list: the entries of the symbol's
  deque, or the empty list for a symbol without one. The lookup creates no entry.
\<close>

definition history_get :: "VolatilityPredictor \<Rightarrow> string \<Rightarrow> HistoryEntry list" where
  "history_get self symbol = (case sentiment_history self symbol of None \<Rightarrow> [] | Some d \<Rightarrow> elems d)"

text \<open>The net sentiment of one history entry: positive minus negative, a missing score being 0.\<close>

definition entry_net :: "HistoryEntry \<Rightarrow> real" where
  "entry_net item = dict_get (he_scores item) ''positive'' 0 - dict_get (he_scores item) ''negative'' 0"

definition avg_sentiment :: "HistoryEntry list \<Rightarrow> real" where
  "avg_sentiment items = (let scores = map entry_net items in if scores \<noteq> [] then np_mean scores else 0)"

definition calculate_momentum :: "VolatilityPredictor \<Rightarrow> string \<Rightarrow> real" where
  "calculate_momentum self symbol =
     (let history = history_get self symbol in
      if length history < 10 then 0
      else
        (let recent = last_n 20 history;
             first_half = take (length recent div 2) recent;
             second_half = drop (length recent div 2) recent;
             momentum = avg_sentiment second_half - avg_sentiment first_half
         in np_clip momentum (- 1) 1))"

definition estimate_volatility :: "VolatilityPredictor \<Rightarrow> string \<Rightarrow> real" where
  "estimate_volatility self symbol =
     (let history = history_get self symbol in
      if length history < 5 then 0.5
      else
        (let recent = last_n 30 history;
             sentiments = map entry_net recent;
             variance = np_var sentiments
         in min 1 (variance * 10)))"

text \<open>
  The reasoning text formats three floats with \<^verbatim>\<open>:.2f\<close>; the formatter is the parameter
  \<open>fmt\<close>.
\<close>

definition generate_reasoning :: "(real \<Rightarrow> string) \<Rightarrow> string \<Rightarrow> real \<Rightarrow> real \<Rightarrow> real \<Rightarrow> string" where
  "generate_reasoning fmt signal sentiment momentum volatility =
     (if signal = ''BUY'' then
        ''Strong positive sentiment ('' @ fmt sentiment @ '') with bullish momentum ('' @ fmt momentum
          @ ''). Predicted volatility: '' @ fmt volatility
      else if signal = ''SELL'' then
        ''Strong negative sentiment ('' @ fmt sentiment @ '') with bearish momentum ('' @ fmt momentum
          @ ''). Predicted volatility: '' @ fmt volatility
      else
        ''Mixed sentiment ('' @ fmt sentiment @ '') with low conviction. Recommend holding position. Volatility: ''
          @ fmt volatility)"

text \<open>
  \<^verbatim>\<open>_calculate_signal\<close>: \<open>None\<close> for an empty batch, otherwise the signal of the
  threshold rule. \<open>now\<close> is the value of \<^verbatim>\<open>datetime.utcnow()\<close> at the call.
\<close>

definition calculate_signal ::
  "(real \<Rightarrow> string) \<Rightarrow> datetime \<Rightarrow> VolatilityPredictor \<Rightarrow> string \<Rightarrow> SentimentAnalysis list
     \<Rightarrow> MarketSignal option" where
  "calculate_signal fmt now self symbol recent_sentiments =
     (if recent_sentiments = [] then None
      else
        (let positive_scores = map (\<lambda>s. dict_get (sa_scores s) ''positive'' 0) recent_sentiments;
             negative_scores = map (\<lambda>s. dict_get (sa_scores s) ''negative'' 0) recent_sentiments;
             confidences = map sa_confidence recent_sentiments;
             avg_positive = np_mean positive_scores;
             avg_negative = np_mean negative_scores;
             avg_confidence = np_mean confidences;
             momentum = calculate_momentum self symbol;
             net_sentiment = avg_positive - avg_negative;
             (signal_type, strength) =
               (if net_sentiment > 0.3 \<and> momentum > 0 then
                  (''BUY'', min 0.95 (avg_positive * avg_confidence))
                else if net_sentiment < - 0.3 \<and> momentum < 0 then
                  (''SELL'', min 0.95 (avg_negative * avg_confidence))
                else (''HOLD'', 0.5));
             volatility = estimate_volatility self symbol
         in Some \<lparr>ms_symbol = symbol,
                  ms_signal = signal_type,
                  ms_strength = strength,
                  ms_sentiment_score = net_sentiment,
                  ms_volume = length recent_sentiments,
                  ms_volatility_prediction = volatility,
                  ms_confidence = avg_confidence,
                  ms_timestamp = now,
                  ms_reasoning = generate_reasoning fmt signal_type net_sentiment momentum volatility\<rparr>))"

text \<open>
  \<^verbatim>\<open>symbol_sentiments[entity].append(result)\<close> on a \<^verbatim>\<open>defaultdict(list)\<close>. A dict keeps
  its keys in insertion order and the second loop of \<^verbatim>\<open>generate_signals\<close> walks them in
  that order, so the groups are an association list.
\<close>

fun group_append :: "(string \<times> 'a list) list \<Rightarrow> string \<Rightarrow> 'a \<Rightarrow> (string \<times> 'a list) list" where
  "group_append [] k v = [(k, [v])]"
| "group_append ((k', vs) # rest) k v =
     (if k' = k then (k', vs @ [v]) # rest else (k', vs) # group_append rest k v)"

text \<open>
  \<^verbatim>\<open>self.sentiment_history[entity].append(...)\<close>: indexing the \<^verbatim>\<open>defaultdict\<close> creates a
  deque of \<open>maxlen\<close> 100 for a new key.
\<close>

definition history_append ::
  "(string \<rightharpoonup> HistoryEntry deque) \<Rightarrow> string \<Rightarrow> HistoryEntry \<Rightarrow> (string \<rightharpoonup> HistoryEntry deque)" where
  "history_append h entity e =
     h(entity \<mapsto> deque_append (case h entity of None \<Rightarrow> new_deque 100 | Some d \<Rightarrow> d) e)"

definition history_entry :: "SentimentAnalysis \<Rightarrow> HistoryEntry" where
  "history_entry result =
     \<lparr>he_sentiment = sa_sentiment result, he_confidence = sa_confidence result,
      he_scores = sa_scores result, he_timestamp = sa_timestamp result\<rparr>"

text \<open>The first loop of \<^verbatim>\<open>generate_signals\<close>: the inner loop over one result's entities.\<close>

fun record_entities ::
  "SentimentAnalysis \<Rightarrow> string list
     \<Rightarrow> (string \<times> SentimentAnalysis list) list \<times> (string \<rightharpoonup> HistoryEntry deque)
     \<Rightarrow> (string \<times> SentimentAnalysis list) list \<times> (string \<rightharpoonup> HistoryEntry deque)" where
  "record_entities result [] acc = acc"
| "record_entities result (entity # rest) (groups, h) =
     record_entities result rest
       (group_append groups entity result, history_append h entity (history_entry result))"

text \<open>The outer loop over the results.\<close>

fun group_results ::
  "SentimentAnalysis list
     \<Rightarrow> (string \<times> SentimentAnalysis list) list \<times> (string \<rightharpoonup> HistoryEntry deque)
     \<Rightarrow> (string \<times> SentimentAnalysis list) list \<times> (string \<rightharpoonup> HistoryEntry deque)" where
  "group_results [] acc = acc"
| "group_results (result # rest) acc =
     group_results rest (record_entities result (sa_entities result) acc)"

text \<open>
  The second loop: one call of \<^verbatim>\<open>_calculate_signal\<close> per symbol, a \<open>None\<close> result being
  skipped. \<open>clock k\<close> is \<^verbatim>\<open>datetime.utcnow()\<close> as the \<open>k\<close>-th symbol reads it.
\<close>

fun collect_signals ::
  "(real \<Rightarrow> string) \<Rightarrow> (nat \<Rightarrow> datetime) \<Rightarrow> VolatilityPredictor \<Rightarrow> nat
     \<Rightarrow> (string \<times> SentimentAnalysis list) list \<Rightarrow> MarketSignal list" where
  "collect_signals fmt clock self k [] = []"
| "collect_signals fmt clock self k ((symbol, sentiments) # rest) =
     (case calculate_signal fmt (clock k) self symbol sentiments of
        None \<Rightarrow> collect_signals fmt clock self (Suc k) rest
      | Some signal \<Rightarrow> signal # collect_signals fmt clock self (Suc k) rest)"

text \<open>\<^verbatim>\<open>generate_signals\<close> returns the signals and leaves them in the cache.\<close>

definition generate_signals ::
  "(real \<Rightarrow> string) \<Rightarrow> (nat \<Rightarrow> datetime) \<Rightarrow> VolatilityPredictor \<Rightarrow> SentimentAnalysis list
     \<Rightarrow> MarketSignal list \<times> VolatilityPredictor" where
  "generate_signals fmt clock self sentiment_results =
     (let (symbol_sentiments, h) = group_results sentiment_results ([], sentiment_history self);
          self1 = self\<lparr>sentiment_history := h\<rparr>;
          signals = collect_signals fmt clock self1 0 symbol_sentiments
      in (signals, self1\<lparr>current_signals := signals\<rparr>))"

text \<open>
  \<^verbatim>\<open>predict\<close>, \<^verbatim>\<open>get_current_signals\<close> and (below) \<^verbatim>\<open>get_daily_count\<close> are methods of
  a stateful object: each returns its result together with the object's state after the
  call. The \<^verbatim>\<open>factors\<close> dict of a prediction is the three \<open>vp_\<close> fields
  \<open>sentiment_variance\<close>, \<open>volume\<close> and \<open>momentum\<close>.
\<close>

definition predict :: "datetime \<Rightarrow> VolatilityPredictor \<Rightarrow> string \<Rightarrow> VolatilityPrediction \<times> VolatilityPredictor" where
  "predict now self symbol =
     (let history = history_get self symbol in
      if length history < 5 then
        (\<lparr>vp_symbol = symbol, vp_predicted_volatility = 0.5, vp_confidence = 0.3,
          vp_time_horizon = ''1h'', vp_sentiment_variance = 0, vp_volume = 0, vp_momentum = 0,
          vp_timestamp = now\<rparr>, self)
      else
        (let recent = last_n 50 history;
             sentiments = map entry_net recent;
             variance = np_var sentiments;
             momentum = calculate_momentum self symbol;
             volume = length recent;
             predicted_volatility = min 1 (variance * 10);
             confidence = min 0.95 (real volume / 50)
         in (\<lparr>vp_symbol = symbol, vp_predicted_volatility = predicted_volatility,
              vp_confidence = confidence, vp_time_horizon = ''1h'',
              vp_sentiment_variance = variance, vp_volume = volume, vp_momentum = momentum,
              vp_timestamp = now\<rparr>, self)))"

text \<open>\<^verbatim>\<open>str.upper()\<close> on ASCII text.\<close>

definition upper_char :: "char \<Rightarrow> char" where
  "upper_char c = (let n = (of_char c :: nat) in if 97 \<le> n \<and> n \<le> 122 then char_of (n - 32) else c)"

definition upper :: "string \<Rightarrow> string" where
  "upper s = map upper_char s"

text \<open>
  \<^verbatim>\<open>get_current_signals\<close>: \<^verbatim>\<open>if symbol:\<close> is false for \<open>None\<close> and for the empty
  string, and then the whole cache is returned.
\<close>

definition get_current_signals ::
  "VolatilityPredictor \<Rightarrow> string option \<Rightarrow> MarketSignal list \<times> VolatilityPredictor" where
  "get_current_signals self symbol =
     (case symbol of
        None \<Rightarrow> (current_signals self, self)
      | Some s \<Rightarrow>
          if s \<noteq> [] then (filter (\<lambda>signal. ms_symbol signal = upper s) (current_signals self), self)
          else (current_signals self, self))"

section \<open>The data aggregator (services/data\_aggregator.py)\<close>

record NewsItem =
  ni_id :: string
  ni_title :: string
  ni_content :: string
  ni_url :: string
  ni_source :: string
  ni_published_at :: datetime
  ni_symbols :: "string list option"

text \<open>
  The object state: \<open>processed_ids\<close> is the ledger of the deduplication, a deque of
  \<open>maxlen\<close> 100000. The HTTP session and the constant feed lists are left out;
  \<open>social_endpoints\<close> is the empty list, so the social fetch never runs.
\<close>

record DataAggregator =
  processed_ids :: "string deque"
  daily_count :: int
  last_reset :: datetime

definition init_DataAggregator :: "datetime \<Rightarrow> DataAggregator" where
  "init_DataAggregator now = \<lparr>processed_ids = new_deque 100000, daily_count = 0, last_reset = now\<rparr>"

text \<open>
  The loop of \<^verbatim>\<open>_deduplicate\<close>. Its state is the list of kept articles, the local set
  \<open>seen_ids\<close> and the ledger.
\<close>

fun dedup_loop ::
  "NewsItem list \<Rightarrow> NewsItem list \<times> string set \<times> string deque
     \<Rightarrow> NewsItem list \<times> string set \<times> string deque" where
  "dedup_loop [] acc = acc"
| "dedup_loop (article # rest) (unique_articles, seen_ids, pids) =
     (if ni_id article \<notin> seen_ids then
        dedup_loop rest
          (unique_articles @ [article], insert (ni_id article) seen_ids, deque_append pids (ni_id article))
      else dedup_loop rest (unique_articles, seen_ids, pids))"

definition deduplicate :: "DataAggregator \<Rightarrow> NewsItem list \<Rightarrow> NewsItem list \<times> DataAggregator" where
  "deduplicate self articles =
     (let seen_ids = set (elems (processed_ids self));
          (unique_articles, seen, pids) = dedup_loop articles ([], seen_ids, processed_ids self)
      in (unique_articles, self\<lparr>processed_ids := pids\<rparr>))"

text \<open>Successive calls of \<^verbatim>\<open>_deduplicate\<close>, one per batch, with the cumulative output.\<close>

fun deduplicate_batches :: "DataAggregator \<Rightarrow> NewsItem list list \<Rightarrow> NewsItem list \<times> DataAggregator" where
  "deduplicate_batches self [] = ([], self)"
| "deduplicate_batches self (batch # rest) =
     (let (out, self1) = deduplicate self batch;
          (outs, self2) = deduplicate_batches self1 rest
      in (out @ outs, self2))"

definition get_daily_count :: "DataAggregator \<Rightarrow> int \<times> DataAggregator" where
  "get_daily_count self = (daily_count self, self)"

text \<open>
  What the outside world supplies to one collection: the hash behind \<^verbatim>\<open>_generate_id\<close>,
  the date parser and the regular expressions of \<^verbatim>\<open>_extract_symbols\<close>, and, for the
  \<open>i\<close>-th simulated article, the draws of \<^verbatim>\<open>random\<close> and the readings of the clock.
\<close>

record Env =
  generate_id :: "string \<Rightarrow> string"
  parse_date :: "string option \<Rightarrow> datetime"
  extract_symbols :: "string \<Rightarrow> string list"
  draw_symbol :: "nat \<Rightarrow> nat"
  draw_template :: "nat \<Rightarrow> nat"
  draw_sentiment :: "nat \<Rightarrow> nat"
  draw_minutes :: "nat \<Rightarrow> nat"
  id_timestamp :: "nat \<Rightarrow> string"
  published_now :: "nat \<Rightarrow> datetime"

text \<open>A parsed feed: its title and its entries, each a dict with optional keys.\<close>

record FeedEntry =
  fe_link :: "string option"
  fe_title :: "string option"
  fe_summary :: "string option"
  fe_published :: "string option"

record Feed =
  feed_title :: "string option"
  feed_entries :: "FeedEntry list"

text \<open>One HTTP fetch: an exception, or a status with the parsed body.\<close>

datatype FeedResponse = FetchFailed | Response nat Feed

definition get_str :: "string option \<Rightarrow> string \<Rightarrow> string" where
  "get_str v dflt = (case v of None \<Rightarrow> dflt | Some s \<Rightarrow> s)"

definition normalize_entry :: "Env \<Rightarrow> Feed \<Rightarrow> FeedEntry \<Rightarrow> NewsItem" where
  "normalize_entry env feed entry =
     \<lparr>ni_id = generate_id env (get_str (fe_link entry) []),
      ni_title = get_str (fe_title entry) [],
      ni_content = take 1000 (get_str (fe_summary entry) []),
      ni_url = get_str (fe_link entry) [],
      ni_source = get_str (feed_title feed) ''Unknown'',
      ni_published_at = parse_date env (fe_published entry),
      ni_symbols = Some (extract_symbols env
         (get_str (fe_title entry) [] @ '' '' @ get_str (fe_summary entry) []))\<rparr>"

definition fetch_single_feed :: "Env \<Rightarrow> FeedResponse \<Rightarrow> NewsItem list" where
  "fetch_single_feed env response =
     (case response of
        FetchFailed \<Rightarrow> []
      | Response status feed \<Rightarrow>
          if status \<noteq> 200 then [] else map (normalize_entry env feed) (take 50 (feed_entries feed)))"

text \<open>\<^verbatim>\<open>_fetch_from_rss\<close>: the responses of the configured feeds, in the order of the feeds.\<close>

definition fetch_from_rss :: "Env \<Rightarrow> FeedResponse list \<Rightarrow> NewsItem list" where
  "fetch_from_rss env responses = concat (map (fetch_single_feed env) responses)"

text \<open>\<^verbatim>\<open>str(i)\<close> for a natural number.\<close>

fun str_nat :: "nat \<Rightarrow> string" where
  "str_nat n = (if n < 10 then [char_of (48 + n)] else str_nat (n div 10) @ [char_of (48 + n mod 10)])"

text \<open>\<^verbatim>\<open>random.choice(xs)\<close> with the raw draw \<open>r\<close>.\<close>

definition choice :: "'a list \<Rightarrow> nat \<Rightarrow> 'a" where
  "choice xs r = xs ! (r mod length xs)"

text \<open>The templates, each as the text before and after \<^verbatim>\<open>{symbol}\<close>.\<close>

definition templates :: "(string \<times> string) list" where
  "templates =
     [([], '' stock surges on strong earnings report''),
      (''Analysts bullish on '', '' following product launch''),
      ([], '' faces regulatory scrutiny in Europe''),
      (''Market volatility impacts '', '' trading''),
      ([], '' CEO announces strategic partnership''),
      (''Investors cautious on '', '' amid market uncertainty''),
      ([], '' beats quarterly expectations''),
      (''Technical analysis suggests '', '' breakout incoming'')]"

definition demo_symbols :: "string option \<Rightarrow> string list" where
  "demo_symbols symbol =
     (case symbol of
        None \<Rightarrow> [''AAPL'', ''GOOGL'', ''MSFT'', ''AMZN'', ''TSLA'', ''NVDA'', ''META'']
      | Some s \<Rightarrow>
          if s \<noteq> [] then [upper s]
          else [''AAPL'', ''GOOGL'', ''MSFT'', ''AMZN'', ''TSLA'', ''NVDA'', ''META''])"

text \<open>The body of the loop of \<^verbatim>\<open>_generate_demo_articles\<close> for the index \<open>i\<close>.\<close>

definition demo_article :: "Env \<Rightarrow> string option \<Rightarrow> nat \<Rightarrow> NewsItem" where
  "demo_article env symbol i =
     (let chosen_symbol = choice (demo_symbols symbol) (draw_symbol env i);
          template = choice templates (draw_template env i);
          sentiment = choice [''bullish'', ''bearish'', ''neutral'', ''mixed''] (draw_sentiment env i);
          title = fst template @ chosen_symbol @ snd template;
          content = ''Market analysts are '' @ sentiment @ '' on '' @ chosen_symbol
            @ '' as recent developments suggest significant movement ahead. Traders are closely monitoring key support and resistance levels.''
      in \<lparr>ni_id = generate_id env (title @ ''-'' @ str_nat i @ ''-'' @ id_timestamp env i),
          ni_title = title,
          ni_content = content,
          ni_url = ''https://example.com/article-'' @ str_nat i,
          ni_source = (if i mod 2 = 0 then ''Financial Times'' else ''Bloomberg''),
          ni_published_at = published_now env i - 60000000 * int (1 + draw_minutes env i mod 60),
          ni_symbols = Some [chosen_symbol]\<rparr>)"

definition generate_demo_articles :: "Env \<Rightarrow> nat \<Rightarrow> string option \<Rightarrow> NewsItem list" where
  "generate_demo_articles env count symbol = map (demo_article env symbol) [0..<count]"

text \<open>\<^verbatim>\<open>xs[:limit]\<close> for an integer limit: a negative one counts from the end.\<close>

definition slice_to :: "'a list \<Rightarrow> int \<Rightarrow> 'a list" where
  "slice_to xs limit = (if 0 \<le> limit then take (nat limit) xs else take (nat (int (length xs) + limit)) xs)"

text \<open>
  \<^verbatim>\<open>fetch_latest_articles\<close>, given the responses of the feeds. \<open>now\<close> is the clock at
  the daily reset.
\<close>

definition fetch_latest_articles ::
  "Env \<Rightarrow> datetime \<Rightarrow> DataAggregator \<Rightarrow> FeedResponse list \<Rightarrow> string option \<Rightarrow> int
     \<Rightarrow> NewsItem list \<times> DataAggregator" where
  "fetch_latest_articles env now self responses symbol limit =
     (let self1 = (if 1 \<le> (now - last_reset self) div 86400000000
                   then self\<lparr>daily_count := 0, last_reset := now\<rparr> else self);
          rss_articles = fetch_from_rss env responses;
          merged = (if int (length rss_articles) < limit
                    then rss_articles
                      @ generate_demo_articles env (nat (limit - int (length rss_articles))) symbol
                    else rss_articles);
          filtered = (case symbol of
                        None \<Rightarrow> merged
                      | Some s \<Rightarrow>
                          if s \<noteq> [] then
                            filter (\<lambda>a. upper s \<in> set (case ni_symbols a of None \<Rightarrow> [] | Some l \<Rightarrow> l)) merged
                          else merged);
          (articles, self2) = deduplicate self1 filtered;
          self3 = self2\<lparr>daily_count := daily_count self2 + int (length articles)\<rparr>
      in (slice_to articles limit, self3))"

section \<open>The connection manager (app/main.py)\<close>

datatype exn = ValueError | AcceptFailed

record 'ws ConnectionManager =
  active_connections :: "'ws list"

text \<open>\<^verbatim>\<open>connect\<close>: the connection joins the list once \<^verbatim>\<open>accept()\<close> has returned.\<close>

definition connect :: "bool \<Rightarrow> 'ws ConnectionManager \<Rightarrow> 'ws \<Rightarrow> exn + 'ws ConnectionManager" where
  "connect accepted self websocket =
     (if accepted then Inr (self\<lparr>active_connections := active_connections self @ [websocket]\<rparr>)
      else Inl AcceptFailed)"

text \<open>\<^verbatim>\<open>list.remove(x)\<close> deletes the first \<open>x\<close> and raises \<open>ValueError\<close> when there is none.\<close>

definition list_remove :: "'a list \<Rightarrow> 'a \<Rightarrow> exn + 'a list" where
  "list_remove xs x = (if x \<in> set xs then Inr (remove1 x xs) else Inl ValueError)"

definition disconnect :: "'ws ConnectionManager \<Rightarrow> 'ws \<Rightarrow> exn + 'ws ConnectionManager" where
  "disconnect self websocket =
     (case list_remove (active_connections self) websocket of
        Inl e \<Rightarrow> Inl e
      | Inr conns \<Rightarrow> Inr (self\<lparr>active_connections := conns\<rparr>))"




section \<open>The services together\<close>

text \<open>
  The module-level service objects of \<^verbatim>\<open>main.py\<close> that hold the pipeline's state, and the
  three queries on them. A method reaches its own object only.
\<close>

record Services =
  data_aggregator :: DataAggregator
  volatility_predictor :: VolatilityPredictor

definition latest_signals :: "Services \<Rightarrow> string option \<Rightarrow> MarketSignal list \<times> Services" where
  "latest_signals sv symbol =
     (let (r, vp) = get_current_signals (volatility_predictor sv) symbol
      in (r, sv\<lparr>volatility_predictor := vp\<rparr>))"

definition predict_volatility :: "datetime \<Rightarrow> Services \<Rightarrow> string \<Rightarrow> VolatilityPrediction \<times> Services" where
  "predict_volatility now sv symbol =
     (let (r, vp) = predict now (volatility_predictor sv) symbol
      in (r, sv\<lparr>volatility_predictor := vp\<rparr>))"

definition daily_item_count :: "Services \<Rightarrow> int \<times> Services" where
  "daily_item_count sv =
     (let (r, da) = get_daily_count (data_aggregator sv)
      in (r, sv\<lparr>data_aggregator := da\<rparr>))"

section \<open>Auxiliary functions\<close>

text \<open>The articles a call of \<^verbatim>\<open>_deduplicate\<close> keeps, given the identifiers seen so far.\<close>

fun kept :: "string set \<Rightarrow> NewsItem list \<Rightarrow> NewsItem list" where
  "kept seen [] = []"
| "kept seen (a # as) =
     (if ni_id a \<in> seen then kept seen as else a # kept (insert (ni_id a) seen) as)"

text \<open>A run of appends to a deque.\<close>

definition deque_extend :: "'a deque \<Rightarrow> 'a list \<Rightarrow> 'a deque" where
  "deque_extend d xs = fold (\<lambda>x d. deque_append d x) xs d"

section \<open>Sample data\<close>

text \<open>Concrete results, histories and predictor states on which the theorems below are run.\<close>

definition sample_result :: "string list \<Rightarrow> real \<Rightarrow> real \<Rightarrow> real \<Rightarrow> SentimentAnalysis" where
  "sample_result ents p n c =
     \<lparr>sa_text = [], sa_source = ''test'', sa_sentiment = ''positive'', sa_confidence = c,
      sa_scores = [''positive'' \<mapsto> p, ''negative'' \<mapsto> n], sa_entities = ents,
      sa_timestamp = 0, sa_latency_ms = 0\<rparr>"






definition stale_predictor :: VolatilityPredictor where
  "stale_predictor =
     \<lparr>sentiment_history = Map.empty,
      current_signals =
        [\<lparr>ms_symbol = ''MSFT'', ms_signal = ''HOLD'', ms_strength = 0.5, ms_sentiment_score = 0,
          ms_volume = 1, ms_volatility_prediction = 0.5, ms_confidence = 0.9, ms_timestamp = 0,
          ms_reasoning = []\<rparr>]\<rparr>"

definition aapl_batch :: "SentimentAnalysis list" where
  "aapl_batch = replicate 3 (sample_result [''AAPL''] 0.8 0.1 0.9)"

definition sample_item :: "string \<Rightarrow> NewsItem" where
  "sample_item fingerprint =
     \<lparr>ni_id = fingerprint, ni_title = [], ni_content = [], ni_url = [], ni_source = ''test'',
      ni_published_at = 0, ni_symbols = None\<rparr>"

definition numbered_item :: "nat \<Rightarrow> NewsItem" where
  "numbered_item n = sample_item (replicate n (CHR ''x''))"

definition sample_env :: Env where
  "sample_env =
     \<lparr>generate_id = (\<lambda>s. s), parse_date = (\<lambda>d. 0), extract_symbols = (\<lambda>t. []),
      draw_symbol = (\<lambda>i. i), draw_template = (\<lambda>i. i), draw_sentiment = (\<lambda>i. i),
      draw_minutes = (\<lambda>i. i), id_timestamp = (\<lambda>i. ''1700000000.0''), published_now = (\<lambda>i. 0)\<rparr>"

definition sample_entry :: FeedEntry where
  "sample_entry =
     \<lparr>fe_link = Some ''https://www.bloomberg.com/news/1'', fe_title = Some ''Markets wrap'',
      fe_summary = Some ''Stocks rose.'', fe_published = None\<rparr>"

definition sample_feed :: "string \<Rightarrow> Feed" where
  "sample_feed title = \<lparr>feed_title = Some title, feed_entries = [sample_entry]\<rparr>"

section \<open>Means of lists\<close>







section \<open>The sample data evaluated\<close>




lemma sample_result_fields:
  "dict_get (sa_scores (sample_result e p n c)) ''positive'' 0 = p"
  "dict_get (sa_scores (sample_result e p n c)) ''negative'' 0 = n"
  "sa_confidence (sample_result e p n c) = c"
  "sa_entities (sample_result e p n c) = e"
  by (simp_all add: sample_result_def dict_get_def)


section \<open>The signal rule\<close>



section \<open>The sign of the momentum\<close>




section \<open>The insufficient-data fallback\<close>

text \<open>
  Claim C7. For a symbol with no recorded observation (and for any symbol with fewer than
  five) \<^verbatim>\<open>predict\<close> returns a prediction whose volatility is the literal 0.5 and whose
  confidence is the literal 0.3. The model of \<^verbatim>\<open>predict\<close> has no error result: the call
  returns a prediction on every state and symbol.
\<close>

theorem predict_insufficient_data:
  assumes "length (history_get self symbol) < 5"
  shows "vp_predicted_volatility (fst (predict now self symbol)) = 0.5
       \<and> vp_confidence (fst (predict now self symbol)) = 0.3"
  using assms by (simp add: predict_def Let_def)

text \<open>A fresh predictor has no observation of any symbol.\<close>

theorem predict_insufficient_data_witness:
  "length (history_get init_VolatilityPredictor ''AAPL'') = 0
   \<and> vp_predicted_volatility (fst (predict 0 init_VolatilityPredictor ''AAPL'')) = 0.5
   \<and> vp_confidence (fst (predict 0 init_VolatilityPredictor ''AAPL'')) = 0.3"
proof -
  have h: "length (history_get init_VolatilityPredictor ''AAPL'') = 0"
    by (simp add: history_get_def init_VolatilityPredictor_def)
  then have "length (history_get init_VolatilityPredictor ''AAPL'') < 5" by simp
  from predict_insufficient_data [OF this, of 0] h show ?thesis by simp
qed

section \<open>The queries are read-only\<close>

text \<open>
  Claim C8. Each of the three queries returns the state of the services as it found it:
  the ledger and the daily counter of the aggregator, every symbol's history and the signal
  cache of the predictor are the same after \<^verbatim>\<open>get_current_signals\<close>, \<^verbatim>\<open>predict\<close> and
  \<^verbatim>\<open>get_daily_count\<close> as before, for every state and argument.
\<close>

theorem queries_read_only:
  "snd (latest_signals sv symbol) = sv
   \<and> snd (predict_volatility now sv name) = sv
   \<and> snd (daily_item_count sv) = sv"
  by (simp add: latest_signals_def predict_volatility_def daily_item_count_def
      get_current_signals_def predict_def get_daily_count_def Let_def split: option.split)

section \<open>Disconnecting\<close>

lemma disconnect_non_member:
  "websocket \<notin> set (active_connections self) \<Longrightarrow> disconnect self websocket = Inl ValueError"
  by (simp add: disconnect_def list_remove_def)

lemma disconnect_member:
  "websocket \<in> set (active_connections self) \<Longrightarrow>
     disconnect self websocket = Inr (self\<lparr>active_connections := remove1 websocket (active_connections self)\<rparr>)"
  by (simp add: disconnect_def list_remove_def)

text \<open>
  Claim C5 says that disconnecting a connection that is not in the active list changes
  nothing and raises nothing. The code calls \<^verbatim>\<open>list.remove\<close> without the membership test
  that the clean-up loop of \<^verbatim>\<open>broadcast\<close> makes: with the connections 1 and 2 active,
  disconnecting 3 raises \<open>ValueError\<close>.
\<close>

theorem disconnect_non_member_raises:
  "disconnect \<lparr>active_connections = [1, 2]\<rparr> (3::nat) = Inl ValueError"
  by (simp add: disconnect_def list_remove_def)

section \<open>Broadcast\<close>





section \<open>The signal cache\<close>

lemma keys_group_append:
  "map fst (group_append g k v) = (if k \<in> set (map fst g) then map fst g else map fst g @ [k])"
  by (induction g k v rule: group_append.induct) auto

lemma nonempty_group_append:
  "list_all (\<lambda>p. snd p \<noteq> []) g \<Longrightarrow> list_all (\<lambda>p. snd p \<noteq> []) (group_append g k v)"
  by (induction g k v rule: group_append.induct) auto

lemma distinct_group_append:
  "distinct (map fst g) \<Longrightarrow> distinct (map fst (group_append g k v))"
  by (simp add: keys_group_append)

lemma set_keys_group_append:
  "set (map fst (group_append g k v)) = insert k (set (map fst g))"
  by (auto simp: keys_group_append)

lemma record_entities_groups:
  "set (map fst (fst (record_entities r es (g, h)))) = set (map fst g) \<union> set es
   \<and> (distinct (map fst g) \<longrightarrow> distinct (map fst (fst (record_entities r es (g, h)))))
   \<and> (list_all (\<lambda>p. snd p \<noteq> []) g \<longrightarrow> list_all (\<lambda>p. snd p \<noteq> []) (fst (record_entities r es (g, h))))"
proof (induction es arbitrary: g h)
  case Nil
  then show ?case by simp
next
  case (Cons e es)
  show ?case
    using Cons.IH [of "group_append g e r" "history_append h e (history_entry r)"]
      distinct_group_append [of g e r] nonempty_group_append [of g e r]
    by (auto simp: set_keys_group_append simp del: set_map)
qed

lemma group_results_groups:
  "set (map fst (fst (group_results rs (g, h)))) = set (map fst g) \<union> (\<Union>r \<in> set rs. set (sa_entities r))
   \<and> (distinct (map fst g) \<longrightarrow> distinct (map fst (fst (group_results rs (g, h)))))
   \<and> (list_all (\<lambda>p. snd p \<noteq> []) g \<longrightarrow> list_all (\<lambda>p. snd p \<noteq> []) (fst (group_results rs (g, h))))"
proof (induction rs arbitrary: g h)
  case Nil
  then show ?case by simp
next
  case (Cons r rs)
  obtain g' h' where step: "record_entities r (sa_entities r) (g, h) = (g', h')"
    by (cases "record_entities r (sa_entities r) (g, h)")
  from record_entities_groups [of r "sa_entities r" g h] step
  have 1: "set (map fst g') = set (map fst g) \<union> set (sa_entities r)"
    and 2: "distinct (map fst g) \<longrightarrow> distinct (map fst g')"
    and 3: "list_all (\<lambda>p. snd p \<noteq> []) g \<longrightarrow> list_all (\<lambda>p. snd p \<noteq> []) g'"
    by simp_all
  from Cons.IH [of g' h'] 1 2 3 step show ?case
    by (auto simp del: set_map)
qed

lemma calculate_signal_symbol:
  "rs \<noteq> [] \<Longrightarrow> \<exists>sig. calculate_signal fmt now self symbol rs = Some sig \<and> ms_symbol sig = symbol"
  by (simp add: calculate_signal_def Let_def split: prod.split)

lemma collect_signals_symbols:
  "list_all (\<lambda>p. snd p \<noteq> []) g \<Longrightarrow> map ms_symbol (collect_signals fmt clock self k g) = map fst g"
proof (induction g arbitrary: k)
  case Nil
  then show ?case by simp
next
  case (Cons p g)
  obtain symbol sentiments where p: "p = (symbol, sentiments)" by (cases p)
  with Cons.prems have "sentiments \<noteq> []" by simp
  from calculate_signal_symbol [OF this, of fmt "clock k" self symbol]
  obtain sig where "calculate_signal fmt (clock k) self symbol sentiments = Some sig" "ms_symbol sig = symbol"
    by blast
  with Cons p show ?case by simp
qed

text \<open>
  Claim C10. After \<^verbatim>\<open>generate_signals\<close> the cache is the list of signals the call returns;
  it holds one signal per symbol and its symbols are exactly the entities named by at least
  one result of the batch. What the cache held before the call plays no part: a signal of
  a symbol absent from the batch is gone.
\<close>

theorem generate_signals_cache:
  "current_signals (snd (generate_signals fmt clock self results)) = fst (generate_signals fmt clock self results)
   \<and> distinct (map ms_symbol (current_signals (snd (generate_signals fmt clock self results))))
   \<and> set (map ms_symbol (current_signals (snd (generate_signals fmt clock self results))))
       = (\<Union>r \<in> set results. set (sa_entities r))"
proof -
  obtain g h where gr: "group_results results ([], sentiment_history self) = (g, h)"
    by (cases "group_results results ([], sentiment_history self)")
  from group_results_groups [of results "[]" "sentiment_history self"] gr
  have 1: "set (map fst g) = (\<Union>r \<in> set results. set (sa_entities r))"
    and 2: "distinct (map fst g)"
    and 3: "list_all (\<lambda>p. snd p \<noteq> []) g"
    by simp_all
  have "map ms_symbol (collect_signals fmt clock (self\<lparr>sentiment_history := h\<rparr>) 0 g) = map fst g"
    using 3 by (rule collect_signals_symbols)
  with 1 2 gr show ?thesis
    by (simp add: generate_signals_def Let_def del: set_map)
qed


lemma distinct_singleton: "distinct xs \<Longrightarrow> set xs = {a} \<Longrightarrow> xs = [a]"
proof (cases xs)
  case Nil
  assume "set xs = {a}"
  with Nil show ?thesis by simp
next
  case (Cons x ys)
  assume d: "distinct xs" and s: "set xs = {a}"
  from s Cons have "x = a" "set ys \<subseteq> {a}" by auto
  moreover from d Cons have "x \<notin> set ys" by simp
  ultimately have "ys = []" by (cases ys) auto
  with \<open>x = a\<close> Cons show ?thesis by simp
qed

text \<open>A cache that holds a signal for MSFT, and a batch of three results that name AAPL only.\<close>

theorem generate_signals_cache_witness:
  "map ms_symbol (current_signals stale_predictor) = [''MSFT'']
   \<and> map ms_symbol (current_signals (snd (generate_signals (\<lambda>x. []) (\<lambda>k. 0) stale_predictor aapl_batch)))
       = [''AAPL'']"
proof -
  have b: "(\<Union>r \<in> set aapl_batch. set (sa_entities r)) = {''AAPL''}"
    by (simp add: aapl_batch_def sample_result_fields)
  let ?cache = "current_signals (snd (generate_signals (\<lambda>x. []) (\<lambda>k. 0) stale_predictor aapl_batch))"
  note c = generate_signals_cache [of "\<lambda>x. []" "\<lambda>k. 0" stale_predictor aapl_batch]
  from c have d: "distinct (map ms_symbol ?cache)" by blast
  from c have "set (map ms_symbol ?cache) = (\<Union>r \<in> set aapl_batch. set (sa_entities r))" by blast
  with b have "set (map ms_symbol ?cache) = {''AAPL''}" by (simp only:)
  with d have "map ms_symbol ?cache = [''AAPL'']" by (rule distinct_singleton)
  then show ?thesis by (simp add: stale_predictor_def)
qed

text \<open>
  The same batch on a fresh predictor: the net sentiment is 0.7, but with fewer than ten
  observations the momentum is 0 and the signal is HOLD.
\<close>

lemma end_to_end_hold:
  "map (\<lambda>s. (ms_symbol s, ms_signal s, ms_sentiment_score s, ms_volume s))
     (fst (generate_signals (\<lambda>x. []) (\<lambda>k. 0) init_VolatilityPredictor aapl_batch))
   = [(''AAPL'', ''HOLD'', 0.7, 3)]"
  by (simp add: generate_signals_def aapl_batch_def numeral_3_eq_3 sample_result_fields
      init_VolatilityPredictor_def history_append_def deque_append_def new_deque_def
      calculate_signal_def calculate_momentum_def history_get_def np_mean_def Let_def)

section \<open>The ledger of the deduplication\<close>

lemma last_n_last_n: "last_n m (last_n m ys @ xs) = last_n m (ys @ xs)"
  by (cases "length ys \<le> m") (auto simp: last_n_def add.commute)

lemma length_last_n: "length (last_n m xs) = min m (length xs)"
  by (auto simp: last_n_def)

lemma deque_append_elems:
  assumes "0 < maxlen d" and "length (elems d) \<le> maxlen d"
  shows "deque_append d x = d\<lparr>elems := last_n (maxlen d) (elems d @ [x])\<rparr>"
proof (cases "length (elems d) < maxlen d")
  case True
  then show ?thesis using assms by (simp add: deque_append_def last_n_def Let_def)
next
  case False
  with assms have full: "length (elems d) = maxlen d" by simp
  with assms(1) have "elems d \<noteq> []" by auto
  then have "tl (elems d @ [x]) = drop 1 (elems d @ [x])" by (cases "elems d") simp_all
  with full assms(1) show ?thesis by (simp add: deque_append_def last_n_def Let_def)
qed

lemma deque_extend_elems:
  assumes "0 < maxlen d" and "length (elems d) \<le> maxlen d"
  shows "deque_extend d xs = d\<lparr>elems := last_n (maxlen d) (elems d @ xs)\<rparr>"
  using assms
proof (induction xs arbitrary: d)
  case Nil
  then show ?case by (simp add: deque_extend_def last_n_def)
next
  case (Cons x xs)
  let ?d = "d\<lparr>elems := last_n (maxlen d) (elems d @ [x])\<rparr>"
  have "deque_extend d (x # xs) = deque_extend (deque_append d x) xs"
    by (simp add: deque_extend_def)
  also have "\<dots> = deque_extend ?d xs"
    using Cons.prems by (simp add: deque_append_elems)
  also have "\<dots> = ?d\<lparr>elems := last_n (maxlen ?d) (elems ?d @ xs)\<rparr>"
    by (rule Cons.IH) (use Cons.prems in \<open>simp_all add: length_last_n\<close>)
  also have "\<dots> = d\<lparr>elems := last_n (maxlen d) (elems d @ x # xs)\<rparr>"
    using last_n_last_n [of "maxlen d" "elems d @ [x]" xs] by simp
  finally show ?case .
qed

lemma dedup_loop_kept:
  "dedup_loop as (u, seen, pids) =
     (u @ kept seen as, seen \<union> ni_id ` set (kept seen as), deque_extend pids (map ni_id (kept seen as)))"
  by (induction as arbitrary: u seen pids) (auto simp: deque_extend_def)

lemma deduplicate_kept:
  "deduplicate self as =
     (kept (set (elems (processed_ids self))) as,
      self\<lparr>processed_ids := deque_extend (processed_ids self)
              (map ni_id (kept (set (elems (processed_ids self))) as))\<rparr>)"
  by (simp add: deduplicate_def dedup_loop_kept Let_def)


lemma kept_subset: "set (kept seen as) \<subseteq> set as"
  by (induction seen as rule: kept.induct) auto



lemma kept_all:
  "distinct (map ni_id as) \<Longrightarrow> ni_id ` set as \<inter> seen = {} \<Longrightarrow> kept seen as = as"
  by (induction seen as rule: kept.induct) auto


lemma deque_append_bounded:
  "length (elems d) \<le> maxlen d \<Longrightarrow>
     length (elems (deque_append d x)) \<le> maxlen d \<and> maxlen (deque_append d x) = maxlen d"
  by (auto simp: deque_append_def Let_def)

lemma deque_extend_bounded:
  "length (elems d) \<le> maxlen d \<Longrightarrow>
     length (elems (deque_extend d xs)) \<le> maxlen d \<and> maxlen (deque_extend d xs) = maxlen d"
proof (induction xs arbitrary: d)
  case Nil
  then show ?case by (simp add: deque_extend_def)
next
  case (Cons x xs)
  from deque_append_bounded [OF Cons.prems, of x] Cons.IH [of "deque_append d x"]
  show ?case by (simp add: deque_extend_def)
qed



lemma deduplicate_bounded:
  assumes "length (elems (processed_ids self)) \<le> maxlen (processed_ids self)"
  shows "length (elems (processed_ids (snd (deduplicate self as)))) \<le> maxlen (processed_ids self)
       \<and> maxlen (processed_ids (snd (deduplicate self as))) = maxlen (processed_ids self)"
  using deque_extend_bounded [OF assms] by (simp add: deduplicate_kept)

lemma deduplicate_batches_bounded:
  "length (elems (processed_ids self)) \<le> maxlen (processed_ids self) \<Longrightarrow>
     length (elems (processed_ids (snd (deduplicate_batches self batches)))) \<le> maxlen (processed_ids self)
     \<and> maxlen (processed_ids (snd (deduplicate_batches self batches))) = maxlen (processed_ids self)"
proof (induction batches arbitrary: self)
  case Nil
  then show ?case by simp
next
  case (Cons b bs)
  from deduplicate_bounded [OF Cons.prems, of b] Cons.IH [of "snd (deduplicate self b)"]
  show ?case by (simp add: split_beta Let_def)
qed


lemma set_last_n: "set (last_n m xs) \<subseteq> set xs"
  by (auto simp: last_n_def dest: in_set_dropD)

lemma deduplicate_batches_fresh:
  assumes "0 < maxlen (processed_ids self)"
    and "length (elems (processed_ids self)) \<le> maxlen (processed_ids self)"
    and "distinct (map ni_id (concat batches))"
    and "ni_id ` set (concat batches) \<inter> set (elems (processed_ids self)) = {}"
  shows "deduplicate_batches self batches =
           (concat batches,
            self\<lparr>processed_ids := (processed_ids self)
               \<lparr>elems := last_n (maxlen (processed_ids self))
                   (elems (processed_ids self) @ map ni_id (concat batches))\<rparr>\<rparr>)"
  using assms
proof (induction batches arbitrary: self)
  case Nil
  then show ?case by (simp add: last_n_def)
next
  case (Cons b bs)
  let ?p = "processed_ids self"
  let ?m = "maxlen ?p"
  let ?L = "set (elems ?p)"
  have kb: "kept ?L b = b"
    using Cons.prems(3,4) by (intro kept_all) auto
  let ?p1 = "?p\<lparr>elems := last_n ?m (elems ?p @ map ni_id b)\<rparr>"
  let ?self1 = "self\<lparr>processed_ids := ?p1\<rparr>"
  have step: "deduplicate self b = (b, ?self1)"
    using Cons.prems(1,2) by (simp add: deduplicate_kept kb deque_extend_elems)
  have sub: "set (elems ?p1) \<subseteq> ?L \<union> ni_id ` set b"
    using set_last_n [of ?m "elems ?p @ map ni_id b"] by auto
  have fresh: "ni_id ` set (concat bs) \<inter> set (elems (processed_ids ?self1)) = {}"
    using Cons.prems(3,4) sub by (simp add: disjoint_iff image_iff subset_iff) blast
  have "deduplicate_batches ?self1 bs =
          (concat bs, ?self1\<lparr>processed_ids := (processed_ids ?self1)
             \<lparr>elems := last_n (maxlen (processed_ids ?self1))
                 (elems (processed_ids ?self1) @ map ni_id (concat bs))\<rparr>\<rparr>)"
    by (rule Cons.IH) (use Cons.prems fresh in \<open>simp_all add: length_last_n\<close>)
  with step last_n_last_n [of ?m "elems ?p @ map ni_id b" "map ni_id (concat bs)"]
  show ?case by simp
qed


text \<open>On a fresh aggregator: one batch with a repeat, and two batches that overlap.\<close>

lemma deduplicate_sample_1:
  "fst (deduplicate (init_DataAggregator 0) [sample_item ''a'', sample_item ''b'', sample_item ''a''])
     = [sample_item ''a'', sample_item ''b'']"
  by (simp add: deduplicate_kept init_DataAggregator_def new_deque_def sample_item_def)


lemma deduplicate_sample_2:
  "fst (deduplicate_batches (init_DataAggregator 0)
        [[sample_item ''a'', sample_item ''b'', sample_item ''a''], [sample_item ''b'', sample_item ''c'']])
     = [sample_item ''a'', sample_item ''b'', sample_item ''c'']"
  by (simp add: deduplicate_kept init_DataAggregator_def new_deque_def sample_item_def
      deque_extend_def deque_append_def Let_def)

text \<open>
  Claim C3. Starting from a fresh aggregator, after any sequence of calls of
  \<^verbatim>\<open>_deduplicate\<close> the ledger holds at most 100000 fingerprints. When the articles fed
  carry \<open>100000 + K\<close> fingerprints, all different, the ledger then holds exactly 100000 of
  them: all but the \<open>K\<close> that were inserted first, in the order of insertion.
\<close>

theorem ledger_bounded_fifo:
  "length (elems (processed_ids (snd (deduplicate_batches (init_DataAggregator now) batches)))) \<le> 100000
   \<and> (distinct (map ni_id (concat batches)) \<and> length (concat batches) = 100000 + K \<longrightarrow>
        elems (processed_ids (snd (deduplicate_batches (init_DataAggregator now) batches)))
          = drop K (map ni_id (concat batches))
        \<and> length (elems (processed_ids (snd (deduplicate_batches (init_DataAggregator now) batches)))) = 100000)"
proof -
  let ?init = "init_DataAggregator now"
  have m: "maxlen (processed_ids ?init) = 100000" and e: "elems (processed_ids ?init) = []"
    by (simp_all add: init_DataAggregator_def new_deque_def)
  have 1: "length (elems (processed_ids (snd (deduplicate_batches ?init batches)))) \<le> 100000"
    using deduplicate_batches_bounded [of ?init batches] by (simp add: m e)
  have 2: "elems (processed_ids (snd (deduplicate_batches ?init batches))) = drop K (map ni_id (concat batches))
        \<and> length (elems (processed_ids (snd (deduplicate_batches ?init batches)))) = 100000"
    if d: "distinct (map ni_id (concat batches))" and l: "length (concat batches) = 100000 + K"
  proof -
    have "deduplicate_batches ?init batches =
           (concat batches,
            ?init\<lparr>processed_ids := (processed_ids ?init)
               \<lparr>elems := last_n (maxlen (processed_ids ?init))
                   (elems (processed_ids ?init) @ map ni_id (concat batches))\<rparr>\<rparr>)"
      by (rule deduplicate_batches_fresh) (use d in \<open>simp_all add: m e\<close>)
    then show ?thesis using l by (simp add: m e last_n_def)
  qed
  from 1 2 show ?thesis by blast
qed

text \<open>One batch of 100003 articles with different fingerprints: the first three are evicted.\<close>

lemma distinct_numbered: "distinct (map ni_id (map numbered_item [0..<n]))"
proof -
  have "inj_on (\<lambda>k. replicate k (CHR ''x'')) {0..<n}"
    by (rule inj_onI) (metis length_replicate)
  then show ?thesis
    by (simp add: distinct_map numbered_item_def sample_item_def o_def)
qed

theorem ledger_bounded_fifo_witness:
  "distinct (map ni_id (concat [map numbered_item [0..<100003]]))
   \<and> length (concat [map numbered_item [0..<100003]]) = 100000 + 3
   \<and> elems (processed_ids (snd (deduplicate_batches (init_DataAggregator 0) [map numbered_item [0..<100003]])))
       = drop 3 (map ni_id (concat [map numbered_item [0..<100003]]))
   \<and> length (elems (processed_ids (snd (deduplicate_batches (init_DataAggregator 0) [map numbered_item [0..<100003]]))))
       = 100000"
proof -
  have d: "distinct (map ni_id (concat [map numbered_item [0..<100003]]))"
    using distinct_numbered [of 100003] by simp
  have l: "length (concat [map numbered_item [0..<100003]]) = 100000 + 3" by simp
  from ledger_bounded_fifo [of 0 "[map numbered_item [0..<100003]]" 3] d l
  show ?thesis by blast
qed

section \<open>The origin of simulated articles\<close>

lemma demo_article_source:
  "ni_source (demo_article env symbol i) = (if i mod 2 = 0 then ''Financial Times'' else ''Bloomberg'')"
  by (simp add: demo_article_def Let_def)

lemma fetch_single_feed_source:
  "r \<in> set (fetch_single_feed env response) \<Longrightarrow>
     \<exists>feed. response = Response 200 feed \<and> ni_source r = get_str (feed_title feed) ''Unknown''"
  by (auto simp: fetch_single_feed_def normalize_entry_def split: FeedResponse.splits if_splits)

lemma fetch_from_rss_source:
  "r \<in> set (fetch_from_rss env responses) \<Longrightarrow>
     \<exists>feed. Response 200 feed \<in> set responses \<and> ni_source r = get_str (feed_title feed) ''Unknown''"
  using fetch_single_feed_source by (fastforce simp: fetch_from_rss_def)

text \<open>
  Claim C9, as amended. The simulated article of index \<open>i\<close> carries the source
  ``Financial Times'' when \<open>i\<close> is even and ``Bloomberg'' when it is odd. An article of a
  real feed carries the title of its feed, or ``Unknown''. So the source tells a simulated
  article from the real ones when no feed that answered is titled ``Financial Times'' or
  ``Bloomberg''.
\<close>

theorem demo_articles_origin:
  "(\<forall>i < count. ni_source (generate_demo_articles env count symbol ! i)
       = (if i mod 2 = 0 then ''Financial Times'' else ''Bloomberg''))
   \<and> (\<forall>r \<in> set (fetch_from_rss env responses).
        \<exists>feed. Response 200 feed \<in> set responses \<and> ni_source r = get_str (feed_title feed) ''Unknown'')
   \<and> ((\<forall>feed. Response 200 feed \<in> set responses \<longrightarrow>
          get_str (feed_title feed) ''Unknown'' \<notin> {''Financial Times'', ''Bloomberg''})
        \<longrightarrow> (\<forall>d \<in> set (generate_demo_articles env count symbol).
             \<forall>r \<in> set (fetch_from_rss env responses). ni_source d \<noteq> ni_source r))"
proof -
  have 1: "\<forall>i < count. ni_source (generate_demo_articles env count symbol ! i)
       = (if i mod 2 = 0 then ''Financial Times'' else ''Bloomberg'')"
    by (simp add: generate_demo_articles_def demo_article_source)
  have 2: "\<forall>r \<in> set (fetch_from_rss env responses).
        \<exists>feed. Response 200 feed \<in> set responses \<and> ni_source r = get_str (feed_title feed) ''Unknown''"
    using fetch_from_rss_source by blast
  have d: "\<forall>d \<in> set (generate_demo_articles env count symbol).
      ni_source d \<in> {''Financial Times'', ''Bloomberg''}"
    by (auto simp: generate_demo_articles_def demo_article_source)
  have 3: "\<forall>d \<in> set (generate_demo_articles env count symbol).
             \<forall>r \<in> set (fetch_from_rss env responses). ni_source d \<noteq> ni_source r"
    if "\<forall>feed. Response 200 feed \<in> set responses \<longrightarrow>
          get_str (feed_title feed) ''Unknown'' \<notin> {''Financial Times'', ''Bloomberg''}"
    using that d 2 by metis
  from 1 2 3 show ?thesis by blast
qed

lemma rss_sample:
  "fetch_from_rss sample_env [Response 200 (sample_feed title)]
     = [normalize_entry sample_env (sample_feed title) sample_entry]"
  by (simp add: fetch_from_rss_def fetch_single_feed_def sample_feed_def)

lemma source_sample: "ni_source (normalize_entry sample_env (sample_feed title) sample_entry) = title"
  by (simp add: normalize_entry_def sample_feed_def get_str_def)

text \<open>A feed titled ``Reuters'' and two simulated articles.\<close>

theorem demo_articles_origin_witness:
  "generate_demo_articles sample_env 2 None \<noteq> []
   \<and> fetch_from_rss sample_env [Response 200 (sample_feed ''Reuters'')] \<noteq> []
   \<and> list_all (\<lambda>d. list_all (\<lambda>r. ni_source d \<noteq> ni_source r)
          (fetch_from_rss sample_env [Response 200 (sample_feed ''Reuters'')]))
        (generate_demo_articles sample_env 2 None)"
proof -
  have h: "\<forall>feed. Response 200 feed \<in> set [Response 200 (sample_feed ''Reuters'')] \<longrightarrow>
          get_str (feed_title feed) ''Unknown'' \<notin> {''Financial Times'', ''Bloomberg''}"
    by (simp add: sample_feed_def get_str_def)
  from demo_articles_origin [of 2 sample_env None "[Response 200 (sample_feed ''Reuters'')]"] h
  have "\<forall>d \<in> set (generate_demo_articles sample_env 2 None).
             \<forall>r \<in> set (fetch_from_rss sample_env [Response 200 (sample_feed ''Reuters'')]).
               ni_source d \<noteq> ni_source r"
    by blast
  then have "list_all (\<lambda>d. list_all (\<lambda>r. ni_source d \<noteq> ni_source r)
          (fetch_from_rss sample_env [Response 200 (sample_feed ''Reuters'')]))
        (generate_demo_articles sample_env 2 None)"
    by (simp only: list_all_iff)
  moreover have "generate_demo_articles sample_env 2 None \<noteq> []"
    by (simp add: generate_demo_articles_def)
  moreover have "fetch_from_rss sample_env [Response 200 (sample_feed ''Reuters'')] \<noteq> []"
    by (simp add: rss_sample)
  ultimately show ?thesis by blast
qed

lemma str_nat_small: "str_nat 0 = ''0''" "str_nat (Suc 0) = ''1''"
  by code_simp+

text \<open>
  Claim C9 as stated fails: the source does not tell the simulated articles apart. With
  one article from a feed titled ``Bloomberg'' and a limit of 3, \<^verbatim>\<open>fetch_latest_articles\<close>
  returns that article and two simulated ones, and the second simulated article has the
  source of the real one.
\<close>

theorem demo_source_counterexample:
  "normalize_entry sample_env (sample_feed ''Bloomberg'') sample_entry
      \<in> set (fetch_from_rss sample_env [Response 200 (sample_feed ''Bloomberg'')])
   \<and> demo_article sample_env None 1 \<in> set (generate_demo_articles sample_env 2 None)
   \<and> ni_source (demo_article sample_env None 1)
       = ni_source (normalize_entry sample_env (sample_feed ''Bloomberg'') sample_entry)
   \<and> map ni_source (fst (fetch_latest_articles sample_env 0 (init_DataAggregator 0)
        [Response 200 (sample_feed ''Bloomberg'')] None 3))
       = [''Bloomberg'', ''Financial Times'', ''Bloomberg'']"
proof -
  have 1: "normalize_entry sample_env (sample_feed ''Bloomberg'') sample_entry
      \<in> set (fetch_from_rss sample_env [Response 200 (sample_feed ''Bloomberg'')])"
    by (simp add: rss_sample)
  have g: "generate_demo_articles sample_env 2 None = [demo_article sample_env None 0, demo_article sample_env None 1]"
    by (simp add: generate_demo_articles_def numeral_2_eq_2)
  then have 2: "demo_article sample_env None 1 \<in> set (generate_demo_articles sample_env 2 None)" by simp
  have 3: "ni_source (demo_article sample_env None 1)
       = ni_source (normalize_entry sample_env (sample_feed ''Bloomberg'') sample_entry)"
    by (simp add: demo_article_source source_sample)
  have ids: "ni_id (normalize_entry sample_env (sample_feed ''Bloomberg'') sample_entry) = ''https://www.bloomberg.com/news/1''"
    "ni_id (demo_article sample_env None 0) = ''AAPL stock surges on strong earnings report-0-1700000000.0''"
    "ni_id (demo_article sample_env None (Suc 0)) = ''Analysts bullish on GOOGL following product launch-1-1700000000.0''"
    by (simp_all add: normalize_entry_def sample_entry_def sample_env_def get_str_def
        demo_article_def demo_symbols_def templates_def choice_def Let_def str_nat_small
        del: str_nat.simps)
  have 4: "map ni_source (fst (fetch_latest_articles sample_env 0 (init_DataAggregator 0)
        [Response 200 (sample_feed ''Bloomberg'')] None 3))
       = [''Bloomberg'', ''Financial Times'', ''Bloomberg'']"
    by (simp add: fetch_latest_articles_def rss_sample g Let_def init_DataAggregator_def new_deque_def
        deduplicate_def ids deque_append_def slice_to_def demo_article_source source_sample)
  from 1 2 3 4 show ?thesis by blast
qed

end
